theory Spec2Isabelle
  imports Main "HOL-Library.Word"
begin

section \<open>The conversation session of \<^verbatim>\<open>src/app/page.tsx\<close>\<close>

text \<open>
  The page component \<^verbatim>\<open>Home\<close> keeps its state in React state variables and changes
  it in three asynchronous handlers: \<^verbatim>\<open>handleSendMessage\<close>, \<^verbatim>\<open>handleTranslateMessage\<close>
  and \<^verbatim>\<open>handleFileUpload\<close>. The state variables are the fields of the record
  \<open>session\<close>. What the remote services answer is an argument (\<open>collaborators\<close>). A
  rejected promise or a thrown exception is the \<open>Inl\<close> of a sum.

  A handler that awaits runs in two parts: the part before the \<^verbatim>\<open>await\<close> acts on the
  state of the render in which the handler was called, the part after it acts on the
  state current when the awaited call settles, and other handlers may have changed the
  state in between. The two parts are separate functions (\<open>_sync\<close>, \<open>_settle\<close>). The
  function named as the handler is the run in which nothing else changes the state
  between its parts: it takes the state in which the handler is called to the state it
  leaves, together with the list of the network requests it has issued.
\<close>

subsection \<open>Strings\<close>

text \<open>
  A JavaScript string is a sequence of UTF-16 code units. \<open>js\<close> reads an ASCII literal
  of the source as such a string.
\<close>

type_synonym jsstring = "16 word list"

definition js :: "string \<Rightarrow> jsstring" where
  "js s = map (\<lambda>c. of_nat (of_char c)) s"

text \<open>
  \<^verbatim>\<open>String.prototype.trim\<close> removes the white space and line terminator code units
  of ECMAScript from both ends.
\<close>

definition is_js_whitespace :: "16 word \<Rightarrow> bool" where
  "is_js_whitespace c \<longleftrightarrow>
     c \<in> set [0x9, 0xA, 0xB, 0xC, 0xD, 0x20, 0xA0, 0x1680, 0x2028, 0x2029,
              0x202F, 0x205F, 0x3000, 0xFEFF]
     \<or> (0x2000 \<le> c \<and> c \<le> 0x200A)"

definition trim :: "jsstring \<Rightarrow> jsstring" where
  "trim s = rev (dropWhile is_js_whitespace (rev (dropWhile is_js_whitespace s)))"

text \<open>
  \<^verbatim>\<open>encodeURIComponent\<close> throws a \<^verbatim>\<open>URIError\<close> on a string with a lone surrogate;
  \<open>well_formed_utf16\<close> is the condition under which it returns.
\<close>

definition is_high_surrogate :: "16 word \<Rightarrow> bool" where
  "is_high_surrogate c \<longleftrightarrow> 0xD800 \<le> c \<and> c \<le> 0xDBFF"

definition is_low_surrogate :: "16 word \<Rightarrow> bool" where
  "is_low_surrogate c \<longleftrightarrow> 0xDC00 \<le> c \<and> c \<le> 0xDFFF"

fun well_formed_utf16 :: "jsstring \<Rightarrow> bool" where
  "well_formed_utf16 [] = True"
| "well_formed_utf16 [c] = (\<not> is_high_surrogate c \<and> \<not> is_low_surrogate c)"
| "well_formed_utf16 (c # d # cs) =
     (if is_high_surrogate c then is_low_surrogate d \<and> well_formed_utf16 cs
      else \<not> is_low_surrogate c \<and> well_formed_utf16 (d # cs))"

subsection \<open>Data model\<close>

text \<open>\<^verbatim>\<open>interface Message { role; content; translatedContent? }\<close>\<close>

record message =
  role :: jsstring
  content :: jsstring
  translatedContent :: "jsstring option"

text \<open>\<^verbatim>\<open>interface Lawyer { name; specialization; phone; email }\<close>\<close>

record lawyer =
  name :: jsstring
  specialization :: jsstring
  phone :: jsstring
  email :: jsstring

text \<open>The state variables of \<^verbatim>\<open>Home\<close>, in the order of their \<^verbatim>\<open>useState\<close> calls.\<close>

record session =
  messages :: "message list"
  inputMessage :: jsstring
  isLoading :: bool
  error :: "jsstring option"
  isMenuOpen :: bool
  selectedLanguage :: jsstring
  documentAnalysis :: "jsstring option"
  isAnalyzing :: bool
  lawyers :: "lawyer list"
  showLawyers :: bool

definition initial_session :: session where
  "initial_session =
     \<lparr>messages = [\<lparr>role = js ''assistant'',
         content = js ''Hello! How can I assist you with the Indian Department of Justice today?'',
         translatedContent = None\<rparr>],
      inputMessage = [], isLoading = False, error = None, isMenuOpen = False,
      selectedLanguage = js ''en'', documentAnalysis = None, isAnalyzing = False,
      lawyers = [], showLawyers = False\<rparr>"

subsection \<open>Failures and collaborators\<close>

datatype failure =
    GroqNotInitialized \<comment> \<open>\<^verbatim>\<open>Error("Groq client is not initialized")\<close>\<close>
  | GroqApiError \<comment> \<open>\<^verbatim>\<open>groq.chat.completions.create\<close> rejected: connection or non-2xx\<close>
  | URIError \<comment> \<open>\<^verbatim>\<open>encodeURIComponent\<close> on a lone surrogate\<close>
  | FetchRejected \<comment> \<open>\<^verbatim>\<open>fetch\<close> rejected: network failure\<close>
  | JsonRejected \<comment> \<open>\<^verbatim>\<open>response.json()\<close> rejected\<close>
  | HttpError nat \<comment> \<open>\<^verbatim>\<open>Error(`HTTP error! status: ...`)\<close>\<close>
  | TranslationApiError int \<comment> \<open>\<^verbatim>\<open>Error(`Translation API error: ...`)\<close>\<close>
  | UploadFailed \<comment> \<open>\<^verbatim>\<open>Error('Failed to upload image')\<close>\<close>
  | TypeError \<comment> \<open>a property read on \<^verbatim>\<open>undefined\<close>\<close>

type_synonym file_bytes = "8 word list"

text \<open>
  The two calls of \<^verbatim>\<open>groq.chat.completions.create\<close>. The model names and sampling
  parameters are constants of the source and are left out of the request.
\<close>

datatype groq_request =
    ChatCompletion "message list"
  | VisionAnalysis jsstring jsstring \<comment> \<open>the instruction text and the image URL\<close>

text \<open>
  A request that leaves the browser: a call of the Groq client, the GET of the
  translation URL (its query text and target language), the POST of a file to
  \<^verbatim>\<open>/api/upload\<close>.
\<close>

datatype request =
    GroqCreate groq_request
  | TranslateGet jsstring jsstring
  | UploadPost file_bytes

text \<open>What \<^verbatim>\<open>fetch\<close> resolves to: \<^verbatim>\<open>response.ok\<close>, \<^verbatim>\<open>response.status\<close>, \<^verbatim>\<open>response.json()\<close>.\<close>

record 'a response =
  ok :: bool
  status :: nat
  json :: "failure + 'a"

text \<open>
  The body of the translation service: \<^verbatim>\<open>data.responseStatus\<close> and
  \<^verbatim>\<open>data.responseData.translatedText\<close> (\<open>None\<close> when \<^verbatim>\<open>responseData\<close> is missing).
\<close>

record translation_data =
  responseStatus :: int
  responseData :: "jsstring option"

text \<open>
  The Groq client answers a request with \<^verbatim>\<open>choices[0]?.message?.content\<close> (\<open>None\<close> when
  that is \<^verbatim>\<open>undefined\<close> or \<^verbatim>\<open>null\<close>) or rejects. The global \<^verbatim>\<open>groq\<close> is \<^verbatim>\<open>null\<close> (\<open>None\<close>)
  where there is no \<^verbatim>\<open>window\<close>.
\<close>

type_synonym groq_client = "groq_request \<Rightarrow> failure + jsstring option"

record collaborators =
  groq :: "groq_client option"
  translation_fetch :: "jsstring \<Rightarrow> jsstring \<Rightarrow> failure + translation_data response"
  upload_fetch :: "file_bytes \<Rightarrow> failure + jsstring response"

subsection \<open>The request helpers\<close>

text \<open>\<^verbatim>\<open>x || fallback\<close> on an optional string: the fallback for \<^verbatim>\<open>undefined\<close>, \<^verbatim>\<open>null\<close> and \<^verbatim>\<open>""\<close>.\<close>

definition or_else :: "jsstring option \<Rightarrow> jsstring \<Rightarrow> jsstring" where
  "or_else x fallback = (case x of None \<Rightarrow> fallback | Some t \<Rightarrow> if t = [] then fallback else t)"

definition getGroqChatCompletion ::
  "groq_client option \<Rightarrow> message list \<Rightarrow> (failure + jsstring) \<times> request list" where
  "getGroqChatCompletion g msgs =
     (case g of
        None \<Rightarrow> (Inl GroqNotInitialized, [])
      | Some create \<Rightarrow>
          (case create (ChatCompletion msgs) of
             Inl e \<Rightarrow> (Inl e, [GroqCreate (ChatCompletion msgs)])
           | Inr c \<Rightarrow>
               (Inr (or_else c (js ''I'm sorry, I couldn't generate a response.'')),
                [GroqCreate (ChatCompletion msgs)])))"

definition vision_prompt :: jsstring where
  "vision_prompt = js ''Analyze this legal document and provide a detailed report.''"

definition getGroqVisionAnalysis ::
  "groq_client option \<Rightarrow> jsstring \<Rightarrow> (failure + jsstring) \<times> request list" where
  "getGroqVisionAnalysis g imageUrl =
     (case g of
        None \<Rightarrow> (Inl GroqNotInitialized, [])
      | Some create \<Rightarrow>
          (case create (VisionAnalysis vision_prompt imageUrl) of
             Inl e \<Rightarrow> (Inl e, [GroqCreate (VisionAnalysis vision_prompt imageUrl)])
           | Inr c \<Rightarrow>
               (Inr (or_else c (js ''I'm sorry, I couldn't analyze the document.'')),
                [GroqCreate (VisionAnalysis vision_prompt imageUrl)])))"

definition translateText ::
  "(jsstring \<Rightarrow> jsstring \<Rightarrow> failure + translation_data response) \<Rightarrow> jsstring \<Rightarrow> jsstring
     \<Rightarrow> (failure + jsstring) \<times> request list" where
  "translateText fetch text targetLang =
     (if \<not> well_formed_utf16 text then (Inl URIError, [])
      else
        (case fetch text targetLang of
           Inl e \<Rightarrow> Inl e
         | Inr response \<Rightarrow>
             if \<not> ok response then Inl (HttpError (status response))
             else
               (case json response of
                  Inl e \<Rightarrow> Inl e
                | Inr data \<Rightarrow>
                    if responseStatus data \<noteq> 200
                    then Inl (TranslationApiError (responseStatus data))
                    else (case responseData data of
                            None \<Rightarrow> Inl TypeError
                          | Some translatedText \<Rightarrow> Inr translatedText)),
         [TranslateGet text targetLang]))"

definition uploadImage ::
  "(file_bytes \<Rightarrow> failure + jsstring response) \<Rightarrow> file_bytes \<Rightarrow> (failure + jsstring) \<times> request list" where
  "uploadImage fetch f =
     (case fetch f of
        Inl e \<Rightarrow> Inl e
      | Inr response \<Rightarrow> if \<not> ok response then Inl UploadFailed else json response,
      [UploadPost f])"

subsection \<open>\<^verbatim>\<open>handleSendMessage\<close>\<close>

definition chat_error :: jsstring where
  "chat_error = js ''An error occurred while getting the AI response. Please try again.''"

text \<open>
  \<^verbatim>\<open>const userMessage = { role: 'user', content: inputMessage }\<close> and
  \<^verbatim>\<open>const botMessage = { role: 'assistant', content: aiResponse }\<close>.
\<close>

definition userMessage :: "jsstring \<Rightarrow> message" where
  "userMessage draft = \<lparr>role = js ''user'', content = draft, translatedContent = None\<rparr>"

definition botMessage :: "jsstring \<Rightarrow> message" where
  "botMessage aiResponse =
     \<lparr>role = js ''assistant'', content = aiResponse, translatedContent = None\<rparr>"

text \<open>
  The part of the handler that runs before its \<^verbatim>\<open>await\<close>: the guard, then the four
  state updates. \<open>None\<close> is the early \<^verbatim>\<open>return\<close>.
\<close>

definition handleSendMessage_sync :: "session \<Rightarrow> session option" where
  "handleSendMessage_sync s =
     (if trim (inputMessage s) = [] \<or> isLoading s then None
      else Some (s\<lparr>messages := messages s @ [userMessage (inputMessage s)],
                   inputMessage := [], isLoading := True, error := None\<rparr>))"

text \<open>The part after the \<^verbatim>\<open>await\<close>: \<^verbatim>\<open>try\<close> body or \<^verbatim>\<open>catch\<close>, then \<^verbatim>\<open>finally\<close>.\<close>

definition handleSendMessage_settle :: "session \<Rightarrow> failure + jsstring \<Rightarrow> session" where
  "handleSendMessage_settle s r =
     (case r of
        Inr aiResponse \<Rightarrow> s\<lparr>messages := messages s @ [botMessage aiResponse]\<rparr>
      | Inl e \<Rightarrow> s\<lparr>error := Some chat_error\<rparr>)
     \<lparr>isLoading := False\<rparr>"

text \<open>
  The request is sent with \<^verbatim>\<open>[...messages, userMessage]\<close>, where \<^verbatim>\<open>messages\<close> is the
  transcript of the render in which the handler was called. Both updates of the
  transcript are functional (\<^verbatim>\<open>prevMessages => [...prevMessages, m]\<close>): they append to
  the transcript current when they are applied. \<open>handleSendMessage\<close> is the run in which
  the state left by the first part is still the current one when the completion settles.
\<close>

definition handleSendMessage :: "collaborators \<Rightarrow> session \<Rightarrow> session \<times> request list" where
  "handleSendMessage env s =
     (case handleSendMessage_sync s of
        None \<Rightarrow> (s, [])
      | Some s1 \<Rightarrow>
          (case getGroqChatCompletion (groq env)
                  (messages s @ [userMessage (inputMessage s)]) of
             (r, reqs) \<Rightarrow> (handleSendMessage_settle s1 r, reqs)))"

subsection \<open>\<^verbatim>\<open>handleTranslateMessage\<close>\<close>

definition translate_error :: jsstring where
  "translate_error = js ''Failed to translate the message. Please try again.''"

text \<open>\<^verbatim>\<open>messages[index]\<close>: \<^verbatim>\<open>undefined\<close> (\<open>None\<close>) when the index is out of range.\<close>

definition lookup :: "'a list \<Rightarrow> nat \<Rightarrow> 'a option" where
  "lookup xs i = (if i < length xs then Some (xs ! i) else None)"

text \<open>
  The test \<^verbatim>\<open>if (messageToTranslate.translatedContent)\<close>: the field counts as a cached
  translation when it is present and not the empty string.
\<close>

definition cached_translation :: "message \<Rightarrow> jsstring option" where
  "cached_translation m =
     (case translatedContent m of
        None \<Rightarrow> None
      | Some t \<Rightarrow> if t = [] then None else Some t)"

text \<open>
  The part of the handler after \<^verbatim>\<open>await translateText(...)\<close>. \<^verbatim>\<open>messages\<close> and
  \<^verbatim>\<open>messageToTranslate\<close> are the constants of the render in which the handler was called
  (\<open>closure_messages\<close>, read before the \<^verbatim>\<open>await\<close>): on success a copy of that transcript
  with the one message replaced is written with \<^verbatim>\<open>setMessages(updatedMessages)\<close>,
  whatever the transcript has become in the current state \<open>s\<close>. On failure only the
  error is set.
\<close>

definition handleTranslateMessage_settle ::
  "message list \<Rightarrow> nat \<Rightarrow> message \<Rightarrow> session \<Rightarrow> failure + jsstring \<Rightarrow> session" where
  "handleTranslateMessage_settle closure_messages index messageToTranslate s r =
     (case r of
        Inr translated \<Rightarrow>
          s\<lparr>messages := closure_messages
               [index := messageToTranslate
                  \<lparr>translatedContent := Some (content messageToTranslate),
                   content := translated\<rparr>]\<rparr>
      | Inl e \<Rightarrow> s\<lparr>error := Some translate_error\<rparr>)"

text \<open>
  The handler returns at once for the language \<^verbatim>\<open>'en'\<close>. Otherwise it reads
  \<^verbatim>\<open>messages[index]\<close> and then a property of it, outside any \<^verbatim>\<open>try\<close>: for an index out
  of range that read throws a \<^verbatim>\<open>TypeError\<close>, which leaves the handler (\<open>Inl\<close>). With a
  cached translation the two fields are swapped; without one the text is sent to
  \<open>translateText\<close>, and a failure of that call is caught.
\<close>

definition handleTranslateMessage ::
  "collaborators \<Rightarrow> session \<Rightarrow> nat \<Rightarrow> (failure + session) \<times> request list" where
  "handleTranslateMessage env s index =
     (if selectedLanguage s = js ''en'' then (Inr s, [])
      else
        (case lookup (messages s) index of
           None \<Rightarrow> (Inl TypeError, [])
         | Some messageToTranslate \<Rightarrow>
             (case cached_translation messageToTranslate of
                Some t \<Rightarrow>
                  (Inr (s\<lparr>messages := (messages s)
                          [index := messageToTranslate
                             \<lparr>content := t,
                              translatedContent := Some (content messageToTranslate)\<rparr>]\<rparr>),
                   [])
              | None \<Rightarrow>
                  (case translateText (translation_fetch env)
                          (content messageToTranslate) (selectedLanguage s) of
                     (r, reqs) \<Rightarrow>
                       (Inr (handleTranslateMessage_settle (messages s) index
                               messageToTranslate s r),
                        reqs)))))"

subsection \<open>\<^verbatim>\<open>handleFileUpload\<close>\<close>

definition analysis_error :: jsstring where
  "analysis_error = js ''An error occurred while analyzing the document. Please try again.''"

text \<open>Before the first \<^verbatim>\<open>await\<close>: the early \<^verbatim>\<open>return\<close> without a file, then two updates.\<close>

definition handleFileUpload_sync :: "session \<Rightarrow> file_bytes option \<Rightarrow> (session \<times> file_bytes) option" where
  "handleFileUpload_sync s file =
     (case file of
        None \<Rightarrow> None
      | Some f \<Rightarrow> Some (s\<lparr>isAnalyzing := True, error := None\<rparr>, f))"

text \<open>After the awaited calls: \<^verbatim>\<open>try\<close> body or \<^verbatim>\<open>catch\<close>, then \<^verbatim>\<open>finally\<close>.\<close>

definition handleFileUpload_settle :: "session \<Rightarrow> failure + jsstring \<Rightarrow> session" where
  "handleFileUpload_settle s r =
     (case r of
        Inr analysis \<Rightarrow> s\<lparr>documentAnalysis := Some analysis\<rparr>
      | Inl e \<Rightarrow> s\<lparr>error := Some analysis_error\<rparr>)
     \<lparr>isAnalyzing := False\<rparr>"

definition handleFileUpload ::
  "collaborators \<Rightarrow> session \<Rightarrow> file_bytes option \<Rightarrow> session \<times> request list" where
  "handleFileUpload env s file =
     (case handleFileUpload_sync s file of
        None \<Rightarrow> (s, [])
      | Some (s1, f) \<Rightarrow>
          (case uploadImage (upload_fetch env) f of
             (Inl e, reqs) \<Rightarrow> (handleFileUpload_settle s1 (Inl e), reqs)
           | (Inr imageUrl, reqs) \<Rightarrow>
               (case getGroqVisionAnalysis (groq env) imageUrl of
                  (r, reqs') \<Rightarrow> (handleFileUpload_settle s1 r, reqs @ reqs'))))"

subsection \<open>Example sessions and collaborators\<close>

text \<open>Collaborators that are all out of reach: no Groq client, every \<^verbatim>\<open>fetch\<close> rejects.\<close>

definition env_offline :: collaborators where
  "env_offline =
     \<lparr>groq = None,
      translation_fetch = (\<lambda>text lang. Inl FetchRejected),
      upload_fetch = (\<lambda>f. Inl FetchRejected)\<rparr>"

text \<open>
  Collaborators that all succeed: the Groq client answers \<open>reply\<close>, the translation
  service answers \<open>translated\<close> with status 200, the upload answers the URL \<open>url\<close>.
\<close>

definition env_ok :: "jsstring \<Rightarrow> jsstring \<Rightarrow> jsstring \<Rightarrow> collaborators" where
  "env_ok reply translated url =
     \<lparr>groq = Some (\<lambda>req. Inr (Some reply)),
      translation_fetch = (\<lambda>text lang.
         Inr \<lparr>ok = True, status = 200,
              json = Inr \<lparr>responseStatus = 200, responseData = Some translated\<rparr>\<rparr>),
      upload_fetch = (\<lambda>f. Inr \<lparr>ok = True, status = 200, json = Inr url\<rparr>)\<rparr>"

text \<open>
  Collaborators that are reached and refuse: the Groq client rejects, the translation
  service answers HTTP 200 with \<^verbatim>\<open>responseStatus\<close> 403, the upload answers HTTP 500.
\<close>

definition env_refusing :: collaborators where
  "env_refusing =
     \<lparr>groq = Some (\<lambda>req. Inl GroqApiError),
      translation_fetch = (\<lambda>text lang.
         Inr \<lparr>ok = True, status = 200,
              json = Inr \<lparr>responseStatus = 403, responseData = None\<rparr>\<rparr>),
      upload_fetch = (\<lambda>f. Inr \<lparr>ok = False, status = 500, json = Inl JsonRejected\<rparr>)\<rparr>"

text \<open>The upload succeeds and the Groq client is missing.\<close>

definition env_upload_only :: collaborators where
  "env_upload_only =
     \<lparr>groq = None,
      translation_fetch = (\<lambda>text lang. Inl FetchRejected),
      upload_fetch = (\<lambda>f. Inr \<lparr>ok = True, status = 200, json = Inr (js ''/uploads/doc.png'')\<rparr>)\<rparr>"

text \<open>The Hindi word of the specification's scenario, in UTF-16.\<close>

definition namaste :: jsstring where
  "namaste = [0x928, 0x92E, 0x938, 0x94D, 0x924, 0x947]"

definition greeting :: message where
  "greeting = \<lparr>role = js ''assistant'', content = js ''Hello'', translatedContent = None\<rparr>"

text \<open>A session with the draft \<^verbatim>\<open>What is bail?\<close> typed in.\<close>

definition session_draft :: session where
  "session_draft = initial_session\<lparr>inputMessage := js ''What is bail?''\<rparr>"

text \<open>A session with the language Hindi selected and the one message \<^verbatim>\<open>Hello\<close>.\<close>

definition session_hi :: session where
  "session_hi = initial_session\<lparr>messages := [greeting], selectedLanguage := js ''hi''\<rparr>"

text \<open>The same session once its message has been translated.\<close>

definition session_hi_translated :: session where
  "session_hi_translated =
     session_hi\<lparr>messages := [greeting\<lparr>content := namaste,
                                        translatedContent := Some (js ''Hello'')\<rparr>]\<rparr>"

text \<open>
  The session in which the translation service has answered the empty string for
  \<^verbatim>\<open>Hello\<close>: the message shows the empty text and keeps the original aside.
\<close>

definition session_hi_empty :: session where
  "session_hi_empty =
     session_hi\<lparr>messages := [greeting\<lparr>content := [],
                                        translatedContent := Some (js ''Hello'')\<rparr>]\<rparr>"

text \<open>That session once the original text is shown again.\<close>

definition session_hi_original :: session where
  "session_hi_original =
     session_hi\<lparr>messages := [greeting\<lparr>content := js ''Hello'',
                                        translatedContent := Some []\<rparr>]\<rparr>"

text \<open>The Hindi session with the draft \<^verbatim>\<open>What is bail?\<close> typed in.\<close>

definition session_hi_draft :: session where
  "session_hi_draft = session_hi\<lparr>inputMessage := js ''What is bail?''\<rparr>"

text \<open>The greeting \<^verbatim>\<open>Hello\<close> once translated.\<close>

definition greeting_translated :: message where
  "greeting_translated = greeting\<lparr>translatedContent := Some (js ''Hello''), content := namaste\<rparr>"

text \<open>
  The Hindi session whose one message shows a text with a lone high surrogate, which
  \<^verbatim>\<open>encodeURIComponent\<close> refuses.
\<close>

definition session_hi_surrogate :: session where
  "session_hi_surrogate = session_hi\<lparr>messages := [greeting\<lparr>content := [0xD800]\<rparr>]\<rparr>"

text \<open>A session that already shows the report of an earlier analysis.\<close>

definition session_analysed :: session where
  "session_analysed = initial_session\<lparr>documentAnalysis := Some (js ''Earlier report'')\<rparr>"

text \<open>The first bytes of a PNG file, standing for an uploaded image.\<close>

definition png_file :: file_bytes where
  "png_file = [0x89, 0x50, 0x4E, 0x47]"

section \<open>Properties\<close>

subsection \<open>Unfolding the examples and the helpers\<close>

lemmas example_defs =
  env_offline_def env_ok_def env_refusing_def env_upload_only_def namaste_def greeting_def
  session_draft_def session_hi_def session_hi_translated_def session_hi_empty_def
  session_hi_original_def session_analysed_def initial_session_def session_hi_draft_def
  greeting_translated_def session_hi_surrogate_def

lemmas helper_defs =
  getGroqChatCompletion_def getGroqVisionAnalysis_def translateText_def uploadImage_def
  or_else_def userMessage_def botMessage_def lookup_def cached_translation_def
  handleTranslateMessage_settle_def
  trim_def is_js_whitespace_def is_high_surrogate_def is_low_surrogate_def js_def

subsection \<open>The requests a helper issues and the ways it fails\<close>

text \<open>
  Each helper issues at most one request: the Groq helpers none without a client, the
  translation helper none when the text cannot be encoded into the URL.
\<close>

lemma getGroqChatCompletion_requests:
  "snd (getGroqChatCompletion g msgs) = (case g of None \<Rightarrow> [] | Some create \<Rightarrow> [GroqCreate (ChatCompletion msgs)])"
  by (simp add: getGroqChatCompletion_def split: option.splits sum.splits)

lemma getGroqVisionAnalysis_requests:
  "snd (getGroqVisionAnalysis g url) =
     (case g of None \<Rightarrow> [] | Some create \<Rightarrow> [GroqCreate (VisionAnalysis vision_prompt url)])"
  by (simp add: getGroqVisionAnalysis_def split: option.splits sum.splits)

lemma translateText_requests:
  "snd (translateText fetch text lang) = (if well_formed_utf16 text then [TranslateGet text lang] else [])"
  by (simp add: translateText_def)

lemma translateText_success_request:
  "translateText fetch text lang = (Inr t, reqs) \<Longrightarrow> reqs = [TranslateGet text lang]"
  by (auto simp: translateText_def split: if_splits)

lemma uploadImage_requests: "snd (uploadImage fetch f) = [UploadPost f]"
  by (simp add: uploadImage_def)

text \<open>
  The failures of the collaborators, as the helpers report them: a missing or rejecting
  Groq client; for the translation a rejected \<^verbatim>\<open>fetch\<close>, a response that is not
  \<^verbatim>\<open>ok\<close>, a \<^verbatim>\<open>responseStatus\<close> other than 200, a text that cannot be encoded; for the
  upload a rejected \<^verbatim>\<open>fetch\<close> or a response that is not \<^verbatim>\<open>ok\<close>.
\<close>

lemma groq_failure_kinds:
  "fst (getGroqChatCompletion None msgs) = Inl GroqNotInitialized"
  "create (ChatCompletion msgs) = Inl e \<Longrightarrow> fst (getGroqChatCompletion (Some create) msgs) = Inl e"
  "fst (getGroqVisionAnalysis None url) = Inl GroqNotInitialized"
  "create (VisionAnalysis vision_prompt url) = Inl e \<Longrightarrow>
     fst (getGroqVisionAnalysis (Some create) url) = Inl e"
  by (simp_all add: getGroqChatCompletion_def getGroqVisionAnalysis_def)

lemma translateText_failure_kinds:
  "fetch text lang = Inl e \<Longrightarrow> well_formed_utf16 text \<Longrightarrow>
     fst (translateText fetch text lang) = Inl e"
  "fetch text lang = Inr response \<Longrightarrow> \<not> ok response \<Longrightarrow> well_formed_utf16 text \<Longrightarrow>
     fst (translateText fetch text lang) = Inl (HttpError (status response))"
  "fetch text lang = Inr response \<Longrightarrow> ok response \<Longrightarrow> json response = Inr data \<Longrightarrow>
     responseStatus data \<noteq> 200 \<Longrightarrow> well_formed_utf16 text \<Longrightarrow>
     fst (translateText fetch text lang) = Inl (TranslationApiError (responseStatus data))"
  "\<not> well_formed_utf16 text \<Longrightarrow> fst (translateText fetch text lang) = Inl URIError"
  by (simp_all add: translateText_def)

lemma uploadImage_failure_kinds:
  "fetch f = Inl e \<Longrightarrow> fst (uploadImage fetch f) = Inl e"
  "fetch f = Inr response \<Longrightarrow> \<not> ok response \<Longrightarrow> fst (uploadImage fetch f) = Inl UploadFailed"
  by (simp_all add: uploadImage_def)

subsection \<open>The handlers on a failed call\<close>

lemma handleTranslateMessage_failed:
  assumes "selectedLanguage s \<noteq> js ''en''" and "i < length (messages s)"
    and "cached_translation (messages s ! i) = None"
    and "fst (translateText (translation_fetch env) (content (messages s ! i))
            (selectedLanguage s)) = Inl e"
  shows "handleTranslateMessage env s i =
           (Inr (s\<lparr>error := Some translate_error\<rparr>),
            snd (translateText (translation_fetch env) (content (messages s ! i))
                   (selectedLanguage s)))"
proof -
  obtain r reqs where tr:
    "translateText (translation_fetch env) (content (messages s ! i)) (selectedLanguage s)
       = (r, reqs)"
    by (cases "translateText (translation_fetch env) (content (messages s ! i))
                 (selectedLanguage s)")
  with assms(4) have "r = Inl e" by simp
  with tr assms(1-3) show ?thesis
    by (simp add: handleTranslateMessage_def handleTranslateMessage_settle_def lookup_def)
qed

lemma handleFileUpload_upload_failed:
  assumes "fst (uploadImage (upload_fetch env) f) = Inl e"
  shows "handleFileUpload env s (Some f) =
           (s\<lparr>isAnalyzing := False, error := Some analysis_error\<rparr>, [UploadPost f])"
proof -
  have "uploadImage (upload_fetch env) f = (Inl e, [UploadPost f])"
    using assms uploadImage_requests[of "upload_fetch env" f]
    by (cases "uploadImage (upload_fetch env) f") simp
  then show ?thesis
    by (simp add: handleFileUpload_def handleFileUpload_sync_def handleFileUpload_settle_def)
qed

lemma handleFileUpload_vision_failed:
  assumes "fst (uploadImage (upload_fetch env) f) = Inr url"
    and "fst (getGroqVisionAnalysis (groq env) url) = Inl e"
  shows "handleFileUpload env s (Some f) =
           (s\<lparr>isAnalyzing := False, error := Some analysis_error\<rparr>,
            UploadPost f # snd (getGroqVisionAnalysis (groq env) url))"
proof -
  have up: "uploadImage (upload_fetch env) f = (Inr url, [UploadPost f])"
    using assms(1) uploadImage_requests[of "upload_fetch env" f]
    by (cases "uploadImage (upload_fetch env) f") simp
  obtain reqs where vis: "getGroqVisionAnalysis (groq env) url = (Inl e, reqs)"
    using assms(2) by (cases "getGroqVisionAnalysis (groq env) url") simp
  show ?thesis
    by (simp add: handleFileUpload_def handleFileUpload_sync_def handleFileUpload_settle_def up vis)
qed

subsection \<open>Sending a message\<close>

text \<open>
  What the part after the \<^verbatim>\<open>await\<close> does to the state that is current when the chat
  completion settles: on success it appends the assistant message to the transcript of
  that state, on failure it leaves that transcript and sets the error text; in both
  cases \<open>isLoading\<close> is false.
\<close>

lemma handleSendMessage_settle_effect:
  "handleSendMessage_settle s (Inr aiResponse) =
     s\<lparr>messages := messages s @
          [\<lparr>role = js ''assistant'', content = aiResponse, translatedContent = None\<rparr>],
       isLoading := False\<rparr>"
  "handleSendMessage_settle s (Inl e) = s\<lparr>error := Some chat_error, isLoading := False\<rparr>"
  by (simp_all add: handleSendMessage_settle_def botMessage_def)

text \<open>
  When nothing else changes the state between the two parts of \<open>handleSendMessage\<close>, a
  successful completion leaves the transcript longer by the user message and the
  assistant message, a failed one longer by the user message alone.
\<close>

lemma handleSendMessage_undisturbed:
  assumes "trim (inputMessage s) \<noteq> []" and "\<not> isLoading s"
  shows "(fst (getGroqChatCompletion (groq env) (messages s @ [userMessage (inputMessage s)]))
            = Inr aiResponse \<longrightarrow>
            messages (fst (handleSendMessage env s)) =
              messages s @
                [\<lparr>role = js ''user'', content = inputMessage s, translatedContent = None\<rparr>,
                 \<lparr>role = js ''assistant'', content = aiResponse, translatedContent = None\<rparr>])
       \<and> (fst (getGroqChatCompletion (groq env) (messages s @ [userMessage (inputMessage s)]))
            = Inl e \<longrightarrow>
            messages (fst (handleSendMessage env s)) =
              messages s @
                [\<lparr>role = js ''user'', content = inputMessage s, translatedContent = None\<rparr>]
            \<and> error (fst (handleSendMessage env s)) = Some chat_error)
       \<and> \<not> isLoading (fst (handleSendMessage env s))"
  using assms
  by (simp add: handleSendMessage_def handleSendMessage_sync_def handleSendMessage_settle_def
      userMessage_def botMessage_def split: prod.splits sum.splits)

text \<open>
  C1 fails on the code when a translation is in flight. In the session with the language
  Hindi, the one message \<^verbatim>\<open>Hello\<close> and the draft \<^verbatim>\<open>What is bail?\<close>, the translation of
  message 0 has been requested and is pending: \<open>handleTranslateMessage\<close> has read the
  transcript of its render, \<^verbatim>\<open>[Hello]\<close>. The draft is sent, and the first part of
  \<open>handleSendMessage\<close> appends the user message. The translation then resolves, and
  \<^verbatim>\<open>setMessages(updatedMessages)\<close> writes the copy of the transcript read before the
  \<^verbatim>\<open>await\<close>, without the user message. When the chat completion succeeds the transcript
  is the translated greeting and the assistant message: one message longer than before
  the call, not two, and without the user message. When it fails the transcript is the
  translated greeting alone: no longer than before the call.
\<close>

theorem sendMessage_loses_user_message_to_pending_translation:
  "trim (inputMessage session_hi_draft) \<noteq> [] \<and> \<not> isLoading session_hi_draft
   \<and> selectedLanguage session_hi_draft \<noteq> js ''en''
   \<and> lookup (messages session_hi_draft) 0 = Some greeting
   \<and> cached_translation greeting = None
   \<and> messages session_hi_draft = [greeting]
   \<and> handleSendMessage_sync session_hi_draft =
       Some (session_hi\<lparr>messages := [greeting, userMessage (js ''What is bail?'')],
                        isLoading := True\<rparr>)
   \<and> messages (handleTranslateMessage_settle (messages session_hi_draft) 0 greeting
                 (session_hi\<lparr>messages := [greeting, userMessage (js ''What is bail?'')],
                            isLoading := True\<rparr>)
                 (Inr namaste)) = [greeting_translated]
   \<and> messages (handleSendMessage_settle
                 (handleTranslateMessage_settle (messages session_hi_draft) 0 greeting
                    (session_hi\<lparr>messages := [greeting, userMessage (js ''What is bail?'')],
                               isLoading := True\<rparr>)
                    (Inr namaste))
                 (Inr (js ''Bail is...''))) =
       [greeting_translated,
        \<lparr>role = js ''assistant'', content = js ''Bail is...'', translatedContent = None\<rparr>]
   \<and> length (messages (handleSendMessage_settle
                 (handleTranslateMessage_settle (messages session_hi_draft) 0 greeting
                    (session_hi\<lparr>messages := [greeting, userMessage (js ''What is bail?'')],
                               isLoading := True\<rparr>)
                    (Inr namaste))
                 (Inr (js ''Bail is...'')))) = length (messages session_hi_draft) + 1
   \<and> messages (handleSendMessage_settle
                 (handleTranslateMessage_settle (messages session_hi_draft) 0 greeting
                    (session_hi\<lparr>messages := [greeting, userMessage (js ''What is bail?'')],
                               isLoading := True\<rparr>)
                    (Inr namaste))
                 (Inl GroqApiError)) = [greeting_translated]
   \<and> length (messages (handleSendMessage_settle
                 (handleTranslateMessage_settle (messages session_hi_draft) 0 greeting
                    (session_hi\<lparr>messages := [greeting, userMessage (js ''What is bail?'')],
                               isLoading := True\<rparr>)
                    (Inr namaste))
                 (Inl GroqApiError))) = length (messages session_hi_draft)"
  by (simp add: example_defs helper_defs handleSendMessage_sync_def
      handleSendMessage_settle_def)

text \<open>
  C6. When the draft is not empty after trimming and no chat request is in flight, the
  part of \<open>handleSendMessage\<close> before its \<^verbatim>\<open>await\<close> appends exactly one message, with the
  role \<^verbatim>\<open>user\<close> and the draft as its content, clears the draft, sets \<open>isLoading\<close> and
  clears the error. The answer of the chat completion acts on that state only afterwards.
\<close>

theorem sendMessage_appends_user_message_first:
  assumes "trim (inputMessage s) \<noteq> []" and "\<not> isLoading s"
  shows "handleSendMessage_sync s =
           Some (s\<lparr>messages := messages s @ [userMessage (inputMessage s)],
                   inputMessage := [], isLoading := True, error := None\<rparr>)
       \<and> role (userMessage (inputMessage s)) = js ''user''
       \<and> content (userMessage (inputMessage s)) = inputMessage s
       \<and> translatedContent (userMessage (inputMessage s)) = None
       \<and> handleSendMessage env s =
           (handleSendMessage_settle
              (s\<lparr>messages := messages s @ [userMessage (inputMessage s)],
                 inputMessage := [], isLoading := True, error := None\<rparr>)
              (fst (getGroqChatCompletion (groq env)
                      (messages s @ [userMessage (inputMessage s)]))),
            snd (getGroqChatCompletion (groq env)
                   (messages s @ [userMessage (inputMessage s)])))"
  using assms
  by (simp add: handleSendMessage_def handleSendMessage_sync_def userMessage_def
      split: prod.splits)

text \<open>The draft \<^verbatim>\<open>What is bail?\<close> in the initial session.\<close>

theorem sendMessage_appends_user_message_first_witness:
  "trim (inputMessage session_draft) \<noteq> [] \<and> \<not> isLoading session_draft
   \<and> handleSendMessage_sync session_draft =
       Some (initial_session
              \<lparr>messages := messages initial_session @ [userMessage (js ''What is bail?'')],
               isLoading := True\<rparr>)"
  using sendMessage_appends_user_message_first [where s = session_draft and env = env_offline]
  by (simp add: example_defs helper_defs)

text \<open>
  C9. When the draft is empty after trimming, or a chat request is in flight
  (\<open>isLoading\<close>), \<open>handleSendMessage\<close> returns at its guard: no state variable changes and
  no request is issued.
\<close>

theorem sendMessage_guard_noop:
  assumes "trim (inputMessage s) = [] \<or> isLoading s"
  shows "handleSendMessage env s = (s, [])"
  using assms by (simp add: handleSendMessage_def handleSendMessage_sync_def)

text \<open>A draft of three spaces, and a draft typed while a request is in flight.\<close>

theorem sendMessage_guard_noop_witness:
  "trim (inputMessage (session_draft\<lparr>inputMessage := js ''   ''\<rparr>)) = []
   \<and> handleSendMessage (env_ok (js ''Bail is...'') [] [])
        (session_draft\<lparr>inputMessage := js ''   ''\<rparr>) =
       (session_draft\<lparr>inputMessage := js ''   ''\<rparr>, [])
   \<and> isLoading (session_draft\<lparr>isLoading := True\<rparr>)
   \<and> handleSendMessage (env_ok (js ''Bail is...'') [] []) (session_draft\<lparr>isLoading := True\<rparr>) =
       (session_draft\<lparr>isLoading := True\<rparr>, [])"
  using sendMessage_guard_noop
      [where s = "session_draft\<lparr>inputMessage := js ''   ''\<rparr>"
         and env = "env_ok (js ''Bail is...'') [] []"]
    sendMessage_guard_noop
      [where s = "session_draft\<lparr>isLoading := True\<rparr>" and env = "env_ok (js ''Bail is...'') [] []"]
  by (simp add: example_defs helper_defs)

subsection \<open>Toggling a translation\<close>

text \<open>
  C8. When the selected language is \<^verbatim>\<open>en\<close>, \<open>handleTranslateMessage\<close> returns the session
  unchanged and issues no request, for every index, in range or not.
\<close>

theorem toggle_en_noop:
  assumes "selectedLanguage s = js ''en''"
  shows "handleTranslateMessage env s i = (Inr s, [])"
  using assms by (simp add: handleTranslateMessage_def)

text \<open>The initial session has the language \<^verbatim>\<open>en\<close>; the index 7 is out of range.\<close>

theorem toggle_en_noop_witness:
  "selectedLanguage initial_session = js ''en''
   \<and> handleTranslateMessage (env_ok [] namaste []) initial_session 0 = (Inr initial_session, [])
   \<and> handleTranslateMessage env_offline initial_session 7 = (Inr initial_session, [])"
  using toggle_en_noop [where s = initial_session and env = "env_ok [] namaste []" and i = 0]
    toggle_en_noop [where s = initial_session and env = env_offline and i = 7]
  by (simp add: example_defs)

text \<open>
  C10. With a selected language other than \<^verbatim>\<open>en\<close>, \<open>handleTranslateMessage\<close> reads
  \<^verbatim>\<open>messages[index]\<close> unguarded. For an index below the length of the transcript the
  read finds the message and the handler returns normally; for any other index the read
  fails with a \<^verbatim>\<open>TypeError\<close> that leaves the handler, before any request.
\<close>

theorem toggle_lookup_in_bounds:
  assumes lang: "selectedLanguage s \<noteq> js ''en''"
  shows "(i < length (messages s) \<longrightarrow>
            lookup (messages s) i = Some (messages s ! i)
            \<and> \<not> isl (fst (handleTranslateMessage env s i)))
       \<and> (length (messages s) \<le> i \<longrightarrow> handleTranslateMessage env s i = (Inl TypeError, []))"
proof (intro conjI impI)
  assume inb: "i < length (messages s)"
  then show "lookup (messages s) i = Some (messages s ! i)"
    by (simp add: lookup_def)
  show "\<not> isl (fst (handleTranslateMessage env s i))"
    using lang inb
    by (simp add: handleTranslateMessage_def handleTranslateMessage_settle_def lookup_def split: option.splits prod.splits sum.splits)
next
  assume "length (messages s) \<le> i"
  then show "handleTranslateMessage env s i = (Inl TypeError, [])"
    using lang by (simp add: handleTranslateMessage_def handleTranslateMessage_settle_def lookup_def)
qed

text \<open>The session with one message: the index 0 is in range, the index 1 is not.\<close>

theorem toggle_lookup_in_bounds_witness:
  "selectedLanguage session_hi \<noteq> js ''en'' \<and> 0 < length (messages session_hi)
   \<and> lookup (messages session_hi) 0 = Some greeting
   \<and> \<not> isl (fst (handleTranslateMessage env_offline session_hi 0))
   \<and> length (messages session_hi) \<le> 1
   \<and> handleTranslateMessage env_offline session_hi 1 = (Inl TypeError, [])"
  using toggle_lookup_in_bounds [where s = session_hi and i = 0 and env = env_offline]
    toggle_lookup_in_bounds [where s = session_hi and i = 1 and env = env_offline]
  by (simp add: example_defs helper_defs)

text \<open>
  C3, as stated, fails for a message whose shown text is empty. The translation service
  answers the empty string for \<^verbatim>\<open>Hello\<close>: the message then has the empty \<open>content\<close> and
  the cached \<^verbatim>\<open>Hello\<close>. The first toggle swaps the two; the second finds the empty string
  in \<open>translatedContent\<close>, takes it for no translation, and sends a request: the message
  ends with a new translation as its content instead of the empty text.
\<close>

theorem toggle_twice_restores_counterexample:
  "handleTranslateMessage (env_ok [] [] []) session_hi 0 =
     (Inr session_hi_empty, [TranslateGet (js ''Hello'') (js ''hi'')])
   \<and> 0 < length (messages session_hi_empty)
   \<and> selectedLanguage session_hi_empty \<noteq> js ''en''
   \<and> translatedContent (messages session_hi_empty ! 0) = Some (js ''Hello'')
   \<and> handleTranslateMessage (env_ok [] namaste []) session_hi_empty 0 =
       (Inr session_hi_original, [])
   \<and> handleTranslateMessage (env_ok [] namaste []) session_hi_original 0 =
       (Inr session_hi_translated, [TranslateGet (js ''Hello'') (js ''hi'')])
   \<and> content (messages session_hi_translated ! 0) \<noteq> content (messages session_hi_empty ! 0)
   \<and> translatedContent (messages session_hi_original ! 0)
       \<noteq> translatedContent (messages session_hi_empty ! 0)"
  by (simp add: example_defs helper_defs handleTranslateMessage_def)

text \<open>
  C3, amended. For a message in range whose \<open>translatedContent\<close> is a non-empty string and
  whose \<open>content\<close> is non-empty too, with a selected language other than \<^verbatim>\<open>en\<close>, two
  calls of \<open>handleTranslateMessage\<close> in a row give back the session of before the first
  call, so \<open>content\<close> and \<open>translatedContent\<close> are restored, and neither call issues a
  request, whatever the collaborators would answer.
\<close>

theorem toggle_twice_restores:
  assumes lang: "selectedLanguage s \<noteq> js ''en''" and inb: "i < length (messages s)"
    and cached: "translatedContent (messages s ! i) = Some t" and t: "t \<noteq> []"
    and shown: "content (messages s ! i) \<noteq> []"
  shows "handleTranslateMessage env1 s i =
           (Inr (s\<lparr>messages := (messages s)
                   [i := (messages s ! i)
                      \<lparr>content := t, translatedContent := Some (content (messages s ! i))\<rparr>]\<rparr>), [])
       \<and> handleTranslateMessage env2
           (s\<lparr>messages := (messages s)
                   [i := (messages s ! i)
                      \<lparr>content := t, translatedContent := Some (content (messages s ! i))\<rparr>]\<rparr>) i =
           (Inr s, [])"
proof
  let ?m = "messages s ! i"
  let ?m1 = "?m\<lparr>content := t, translatedContent := Some (content ?m)\<rparr>"
  let ?s1 = "s\<lparr>messages := (messages s)[i := ?m1]\<rparr>"
  show "handleTranslateMessage env1 s i = (Inr ?s1, [])"
    using lang inb cached t
    by (simp add: handleTranslateMessage_def handleTranslateMessage_settle_def lookup_def cached_translation_def)
  have restored: "?m1\<lparr>content := content ?m, translatedContent := Some t\<rparr> = ?m"
    using cached by simp
  have "handleTranslateMessage env2 ?s1 i =
          (Inr (?s1\<lparr>messages := (messages ?s1)
                  [i := ?m1\<lparr>content := content ?m, translatedContent := Some t\<rparr>]\<rparr>), [])"
    using lang inb shown
    by (simp add: handleTranslateMessage_def handleTranslateMessage_settle_def lookup_def cached_translation_def)
  also have "?s1\<lparr>messages := (messages ?s1)
                  [i := ?m1\<lparr>content := content ?m, translatedContent := Some t\<rparr>]\<rparr> = s"
    unfolding restored by simp
  finally show "handleTranslateMessage env2 ?s1 i = (Inr s, [])" .
qed

text \<open>The translated \<^verbatim>\<open>Hello\<close> of the scenario, toggled to the original and back.\<close>

theorem toggle_twice_restores_witness:
  "selectedLanguage session_hi_translated \<noteq> js ''en''
   \<and> 0 < length (messages session_hi_translated)
   \<and> translatedContent (messages session_hi_translated ! 0) = Some (js ''Hello'')
   \<and> js ''Hello'' \<noteq> [] \<and> content (messages session_hi_translated ! 0) \<noteq> []
   \<and> handleTranslateMessage env_offline session_hi_translated 0 =
       (Inr (session_hi\<lparr>messages :=
               [greeting\<lparr>content := js ''Hello'', translatedContent := Some namaste\<rparr>]\<rparr>), [])
   \<and> handleTranslateMessage env_offline
       (session_hi\<lparr>messages :=
               [greeting\<lparr>content := js ''Hello'', translatedContent := Some namaste\<rparr>]\<rparr>) 0 =
       (Inr session_hi_translated, [])"
  using toggle_twice_restores
      [where s = session_hi_translated and i = 0 and t = "js ''Hello''"
         and ?env1.0 = env_offline and ?env2.0 = env_offline]
  by (simp add: example_defs helper_defs)

text \<open>
  C4, as stated, fails for a text that cannot be put into the URL. The message shows a
  lone high surrogate and has no cached translation, the language is Hindi:
  \<^verbatim>\<open>encodeURIComponent\<close> throws in \<open>translateText\<close> before the \<^verbatim>\<open>fetch\<close>, so the handler
  sends no request at all, although the translation service would have answered; it
  sets the error text.
\<close>

theorem toggle_translates_uncached_counterexample:
  "selectedLanguage session_hi_surrogate \<noteq> js ''en''
   \<and> 0 < length (messages session_hi_surrogate)
   \<and> cached_translation (messages session_hi_surrogate ! 0) = None
   \<and> content (messages session_hi_surrogate ! 0) = [0xD800]
   \<and> handleTranslateMessage (env_ok [] namaste []) session_hi_surrogate 0 =
       (Inr (session_hi_surrogate\<lparr>error := Some translate_error\<rparr>), [])
   \<and> snd (handleTranslateMessage (env_ok [] namaste []) session_hi_surrogate 0) \<noteq>
       [TranslateGet (content (messages session_hi_surrogate ! 0))
          (selectedLanguage session_hi_surrogate)]"
  by (simp add: example_defs helper_defs handleTranslateMessage_def)

text \<open>
  C4, amended. For a message in range without a cached translation, whose \<open>content\<close> is
  well-formed UTF-16 (no lone surrogate), and a selected language \<open>L\<close> other than
  \<^verbatim>\<open>en\<close>, \<open>handleTranslateMessage\<close> sends exactly one request, the translation of that
  content into \<open>L\<close>. When the translation succeeds with a text, the message at the index
  has the former content as \<open>translatedContent\<close> and the returned text as \<open>content\<close>, and
  nothing else in the session changes.
\<close>

theorem toggle_translates_uncached:
  assumes lang: "selectedLanguage s \<noteq> js ''en''" and inb: "i < length (messages s)"
    and uncached: "cached_translation (messages s ! i) = None"
    and encodable: "well_formed_utf16 (content (messages s ! i))"
  shows "snd (handleTranslateMessage env s i) =
           [TranslateGet (content (messages s ! i)) (selectedLanguage s)]
       \<and> (fst (translateText (translation_fetch env) (content (messages s ! i))
                 (selectedLanguage s)) = Inr translated \<longrightarrow>
            handleTranslateMessage env s i =
              (Inr (s\<lparr>messages := (messages s)
                      [i := (messages s ! i)
                         \<lparr>translatedContent := Some (content (messages s ! i)),
                          content := translated\<rparr>]\<rparr>),
               [TranslateGet (content (messages s ! i)) (selectedLanguage s)]))"
proof -
  obtain r reqs where tr:
    "translateText (translation_fetch env) (content (messages s ! i)) (selectedLanguage s)
       = (r, reqs)"
    by (cases "translateText (translation_fetch env) (content (messages s ! i))
                 (selectedLanguage s)")
  have issued: "reqs = [TranslateGet (content (messages s ! i)) (selectedLanguage s)]"
    using tr encodable
      translateText_requests[of "translation_fetch env" "content (messages s ! i)"
        "selectedLanguage s"]
    by simp
  have run: "handleTranslateMessage env s i =
      (Inr (handleTranslateMessage_settle (messages s) i (messages s ! i) s r), reqs)"
    using lang inb uncached tr by (simp add: handleTranslateMessage_def lookup_def)
  show ?thesis
    by (simp add: run tr issued handleTranslateMessage_settle_def)
qed

text \<open>The scenario of the specification: \<^verbatim>\<open>Hello\<close> translated into Hindi.\<close>

theorem toggle_translates_uncached_witness:
  "selectedLanguage session_hi \<noteq> js ''en'' \<and> 0 < length (messages session_hi)
   \<and> cached_translation (messages session_hi ! 0) = None
   \<and> well_formed_utf16 (content (messages session_hi ! 0))
   \<and> translateText (translation_fetch (env_ok [] namaste [])) (content (messages session_hi ! 0))
        (selectedLanguage session_hi) = (Inr namaste, [TranslateGet (js ''Hello'') (js ''hi'')])
   \<and> handleTranslateMessage (env_ok [] namaste []) session_hi 0 =
       (Inr session_hi_translated, [TranslateGet (js ''Hello'') (js ''hi'')])"
  using toggle_translates_uncached
      [where s = session_hi and i = 0 and env = "env_ok [] namaste []" and translated = namaste]
  by (simp add: example_defs helper_defs)

text \<open>
  C5. For a message in range without a cached translation and a selected language other
  than \<^verbatim>\<open>en\<close>, when the translation fails \<open>handleTranslateMessage\<close> sets the error to the
  fixed translation error text and changes nothing else: the message and the rest of the
  transcript are as before.
\<close>

theorem toggle_failure_keeps_transcript:
  assumes "selectedLanguage s \<noteq> js ''en''" and "i < length (messages s)"
    and "cached_translation (messages s ! i) = None"
    and "fst (translateText (translation_fetch env) (content (messages s ! i))
            (selectedLanguage s)) = Inl e"
  shows "fst (handleTranslateMessage env s i) = Inr (s\<lparr>error := Some translate_error\<rparr>)
       \<and> messages (s\<lparr>error := Some translate_error\<rparr>) = messages s"
  using handleTranslateMessage_failed[OF assms] by simp

text \<open>The translation service answers \<^verbatim>\<open>responseStatus\<close> 403.\<close>

theorem toggle_failure_keeps_transcript_witness:
  "selectedLanguage session_hi \<noteq> js ''en'' \<and> 0 < length (messages session_hi)
   \<and> cached_translation (messages session_hi ! 0) = None
   \<and> fst (translateText (translation_fetch env_refusing) (content (messages session_hi ! 0))
        (selectedLanguage session_hi)) = Inl (TranslationApiError 403)
   \<and> fst (handleTranslateMessage env_refusing session_hi 0) =
       Inr (session_hi\<lparr>error := Some translate_error\<rparr>)"
  using toggle_failure_keeps_transcript
      [where s = session_hi and i = 0 and env = env_refusing and e = "TranslationApiError 403"]
  by (simp add: example_defs helper_defs)

subsection \<open>Analysing a document\<close>

text \<open>
  C2, as stated, fails: \<open>handleFileUpload\<close> never resets \<open>documentAnalysis\<close>. In a
  session that shows an earlier report, an upload that fails leaves that report in
  place, in the state before the \<^verbatim>\<open>await\<close> and in the final state.
\<close>

theorem analyzeDocument_clears_result_counterexample:
  "fst (uploadImage (upload_fetch env_offline) png_file) = Inl FetchRejected
   \<and> documentAnalysis session_analysed = Some (js ''Earlier report'')
   \<and> handleFileUpload_sync session_analysed (Some png_file) =
       Some (session_analysed\<lparr>isAnalyzing := True\<rparr>, png_file)
   \<and> fst (handleFileUpload env_offline session_analysed (Some png_file)) =
       session_analysed\<lparr>error := Some analysis_error\<rparr>
   \<and> documentAnalysis (fst (handleFileUpload env_offline session_analysed (Some png_file))) \<noteq> None"
  by (simp add: example_defs helper_defs png_file_def handleFileUpload_def
      handleFileUpload_sync_def handleFileUpload_settle_def)

text \<open>
  C2, amended. Given a file, \<open>handleFileUpload\<close> first sets \<open>isAnalyzing\<close> and clears the
  error, and leaves \<open>documentAnalysis\<close> as it is. When the upload fails, or the upload
  succeeds and the vision analysis fails, the final state is the state before the call
  with \<open>isAnalyzing\<close> false and the error set to the fixed analysis error text: the
  analysis result is the one from before the call, unset only when it was unset.
\<close>

theorem analyzeDocument_failure_state:
  assumes "fst (uploadImage (upload_fetch env) f) = Inl e
         \<or> (fst (uploadImage (upload_fetch env) f) = Inr url
            \<and> fst (getGroqVisionAnalysis (groq env) url) = Inl e)"
  shows "handleFileUpload_sync s (Some f) = Some (s\<lparr>isAnalyzing := True, error := None\<rparr>, f)
       \<and> fst (handleFileUpload env s (Some f)) =
           s\<lparr>isAnalyzing := False, error := Some analysis_error\<rparr>
       \<and> documentAnalysis (fst (handleFileUpload env s (Some f))) = documentAnalysis s"
  using assms handleFileUpload_upload_failed[of env f e s]
    handleFileUpload_vision_failed[of env f url e s]
  by (auto simp: handleFileUpload_sync_def)

text \<open>
  An upload answered with HTTP 500 in a session with an earlier report, and an upload
  that succeeds without a Groq client in the initial session.
\<close>

theorem analyzeDocument_failure_state_witness:
  "fst (uploadImage (upload_fetch env_refusing) png_file) = Inl UploadFailed
   \<and> fst (handleFileUpload env_refusing session_analysed (Some png_file)) =
       session_analysed\<lparr>isAnalyzing := False, error := Some analysis_error\<rparr>
   \<and> documentAnalysis (fst (handleFileUpload env_refusing session_analysed (Some png_file))) =
       Some (js ''Earlier report'')
   \<and> fst (uploadImage (upload_fetch env_upload_only) png_file) = Inr (js ''/uploads/doc.png'')
   \<and> fst (getGroqVisionAnalysis (groq env_upload_only) (js ''/uploads/doc.png'')) =
       Inl GroqNotInitialized
   \<and> fst (handleFileUpload env_upload_only initial_session (Some png_file)) =
       initial_session\<lparr>isAnalyzing := False, error := Some analysis_error\<rparr>
   \<and> documentAnalysis (fst (handleFileUpload env_upload_only initial_session (Some png_file))) =
       None"
  using analyzeDocument_failure_state
      [where env = env_refusing and f = png_file and e = UploadFailed and s = session_analysed]
    analyzeDocument_failure_state
      [where env = env_upload_only and f = png_file and e = GroqNotInitialized
         and url = "js ''/uploads/doc.png''" and s = initial_session]
  by (simp add: example_defs helper_defs png_file_def)

subsection \<open>Failures of the collaborators\<close>

text \<open>
  C7. Whatever the failure of the awaited call (a missing client, a transport error, a
  status other than 200 from the translation service), each of the three handlers
  catches it: the chat handler sets the chat error text and \<open>isLoading\<close> is false; the
  translation handler returns normally with the translation error text set; the upload
  handler sets the analysis error text and \<open>isAnalyzing\<close> is false. No request is sent
  twice: the chat and translation handlers send at most one, the upload handler at most
  the upload and the vision request.
\<close>

theorem failures_caught_at_flow_boundary:
  "(trim (inputMessage s) \<noteq> [] \<and> \<not> isLoading s
      \<and> fst (getGroqChatCompletion (groq env) (messages s @ [userMessage (inputMessage s)]))
          = Inl e
    \<longrightarrow> error (fst (handleSendMessage env s)) = Some chat_error
        \<and> \<not> isLoading (fst (handleSendMessage env s))
        \<and> length (snd (handleSendMessage env s)) \<le> 1)
 \<and> (selectedLanguage s \<noteq> js ''en'' \<and> i < length (messages s)
      \<and> cached_translation (messages s ! i) = None
      \<and> fst (translateText (translation_fetch env) (content (messages s ! i))
               (selectedLanguage s)) = Inl e
    \<longrightarrow> fst (handleTranslateMessage env s i) = Inr (s\<lparr>error := Some translate_error\<rparr>)
        \<and> length (snd (handleTranslateMessage env s i)) \<le> 1)
 \<and> (fst (uploadImage (upload_fetch env) f) = Inl e
      \<or> (fst (uploadImage (upload_fetch env) f) = Inr url
          \<and> fst (getGroqVisionAnalysis (groq env) url) = Inl e)
    \<longrightarrow> error (fst (handleFileUpload env s (Some f))) = Some analysis_error
        \<and> \<not> isAnalyzing (fst (handleFileUpload env s (Some f)))
        \<and> length (snd (handleFileUpload env s (Some f))) \<le> 2
        \<and> distinct (snd (handleFileUpload env s (Some f))))"
proof (intro conjI impI)
  let ?chat = "getGroqChatCompletion (groq env) (messages s @ [userMessage (inputMessage s)])"
  assume pre: "trim (inputMessage s) \<noteq> [] \<and> \<not> isLoading s \<and> fst ?chat = Inl e"
  then have run: "handleSendMessage env s =
      (handleSendMessage_settle
         (s\<lparr>messages := messages s @ [userMessage (inputMessage s)],
            inputMessage := [], isLoading := True, error := None\<rparr>) (Inl e), snd ?chat)"
    by (simp add: handleSendMessage_def handleSendMessage_sync_def case_prod_beta)
  show "error (fst (handleSendMessage env s)) = Some chat_error"
    by (simp add: run handleSendMessage_settle_def)
  show "\<not> isLoading (fst (handleSendMessage env s))"
    by (simp add: run handleSendMessage_settle_def)
  show "length (snd (handleSendMessage env s)) \<le> 1"
    by (simp add: run getGroqChatCompletion_requests split: option.splits)
next
  let ?tr = "translateText (translation_fetch env) (content (messages s ! i)) (selectedLanguage s)"
  assume pre: "selectedLanguage s \<noteq> js ''en'' \<and> i < length (messages s)
      \<and> cached_translation (messages s ! i) = None \<and> fst ?tr = Inl e"
  then have run: "handleTranslateMessage env s i =
      (Inr (s\<lparr>error := Some translate_error\<rparr>), snd ?tr)"
    using handleTranslateMessage_failed[of s i env e] by simp
  show "fst (handleTranslateMessage env s i) = Inr (s\<lparr>error := Some translate_error\<rparr>)"
    by (simp add: run)
  show "length (snd (handleTranslateMessage env s i)) \<le> 1"
    by (simp add: run translateText_requests)
next
  assume pre: "fst (uploadImage (upload_fetch env) f) = Inl e
      \<or> (fst (uploadImage (upload_fetch env) f) = Inr url
          \<and> fst (getGroqVisionAnalysis (groq env) url) = Inl e)"
  then have run: "handleFileUpload env s (Some f) =
        (s\<lparr>isAnalyzing := False, error := Some analysis_error\<rparr>, [UploadPost f])
      \<or> handleFileUpload env s (Some f) =
        (s\<lparr>isAnalyzing := False, error := Some analysis_error\<rparr>,
         UploadPost f # snd (getGroqVisionAnalysis (groq env) url))"
    using handleFileUpload_upload_failed[of env f e s]
      handleFileUpload_vision_failed[of env f url e s] by blast
  show "error (fst (handleFileUpload env s (Some f))) = Some analysis_error"
    using run by auto
  show "\<not> isAnalyzing (fst (handleFileUpload env s (Some f)))"
    using run by auto
  show "length (snd (handleFileUpload env s (Some f))) \<le> 2"
    using run by (auto simp: getGroqVisionAnalysis_requests split: option.splits)
  show "distinct (snd (handleFileUpload env s (Some f)))"
    using run by (auto simp: getGroqVisionAnalysis_requests split: option.splits)
qed

text \<open>
  One failure of each kind: no Groq client for the chat, \<^verbatim>\<open>responseStatus\<close> 403 for the
  translation, HTTP 500 for the upload.
\<close>

theorem failures_caught_at_flow_boundary_witness:
  "trim (inputMessage session_draft) \<noteq> [] \<and> \<not> isLoading session_draft
   \<and> fst (getGroqChatCompletion (groq env_offline)
        (messages session_draft @ [userMessage (inputMessage session_draft)]))
       = Inl GroqNotInitialized
   \<and> error (fst (handleSendMessage env_offline session_draft)) = Some chat_error
   \<and> \<not> isLoading (fst (handleSendMessage env_offline session_draft))
   \<and> selectedLanguage session_hi \<noteq> js ''en'' \<and> 0 < length (messages session_hi)
   \<and> cached_translation (messages session_hi ! 0) = None
   \<and> fst (translateText (translation_fetch env_refusing) (content (messages session_hi ! 0))
        (selectedLanguage session_hi)) = Inl (TranslationApiError 403)
   \<and> fst (handleTranslateMessage env_refusing session_hi 0) =
       Inr (session_hi\<lparr>error := Some translate_error\<rparr>)
   \<and> fst (uploadImage (upload_fetch env_refusing) png_file) = Inl UploadFailed
   \<and> error (fst (handleFileUpload env_refusing session_draft (Some png_file))) =
       Some analysis_error
   \<and> \<not> isAnalyzing (fst (handleFileUpload env_refusing session_draft (Some png_file)))"
  using failures_caught_at_flow_boundary
      [where s = session_draft and env = env_offline and e = GroqNotInitialized]
    failures_caught_at_flow_boundary
      [where s = session_hi and env = env_refusing and i = 0 and e = "TranslationApiError 403"]
    failures_caught_at_flow_boundary
      [where s = session_draft and env = env_refusing and f = png_file and e = UploadFailed]
  by (simp add: example_defs helper_defs)

end
